theory Spec2Isabelle
  imports Complex_Main
begin

section \<open>Shared vocabulary\<close>

text \<open>
  JavaScript numbers are modelled as \<open>int\<close>: every quantity below (experience, levels,
  hit points, tile coordinates, millisecond timestamps) is an integer far below \<open>2^53\<close>.
  A value that may be \<open>undefined\<close> is an \<open>option\<close>, with \<open>None\<close> for \<open>undefined\<close>.
\<close>

text \<open>\<open>Array.prototype.indexOf\<close>: the first position of the element, \<open>-1\<close> when absent.\<close>

fun indexOf :: "'a list \<Rightarrow> 'a \<Rightarrow> int" where
  "indexOf [] v = -1"
| "indexOf (u # us) v = (if u = v then 0 else (let i = indexOf us v in if i < 0 then -1 else i + 1))"

text \<open>\<open>Array.prototype.includes\<close>.\<close>

definition includesElem :: "'a list \<Rightarrow> 'a \<Rightarrow> bool" where
  "includesElem us v = (v \<in> set us)"

section \<open>Player (player.ts)\<close>

text \<open>
  The points object behind \<open>player.hitPoints\<close> and \<open>player.mana\<close>. Its class is not among
  the sources; \<open>player.ts\<close> reads \<open>maxPoints\<close> and calls \<open>setMaxHitPoints\<close>, \<open>setMaxMana\<close>
  and \<open>increment\<close> on it.
\<close>

record point_pool =
  points :: int
  maxPoints :: int

text \<open>
  Modelled from the spec: \<open>HitPoints.setMaxHitPoints\<close> and \<open>Mana.setMaxMana\<close> are absent
  from the sources; the spec says they set the maximum ("raises max hit points",
  "recomputes the player's max hit points").
\<close>

definition setMaxPoints :: "int \<Rightarrow> point_pool \<Rightarrow> point_pool" where
  "setMaxPoints m hp = hp\<lparr>maxPoints := m\<rparr>"


text \<open>The equipped weapon: \<open>Equipment\<close> with its \<open>ability\<close> and \<open>abilityLevel\<close>.\<close>

record equipment =
  ability :: int
  abilityLevel :: int

text \<open>
  Packets built by the player and the skills. Only the payload fields that the modelled
  functions set are kept. \<open>ExperienceCombat id level private\<close> carries the private block
  \<open>(amount, experience, nextExperience, prevExperience)\<close> when it is sent to the player
  alone; \<open>SyncPacket\<close> carries, of \<open>serialize(true)\<close>, the instance, level, hit points and
  max hit points.
\<close>

datatype packet =
    NotificationText string "string option"
  | NotificationPopup string string string
  | ExperienceCombat string int "(int \<times> int \<times> int option \<times> int) option"
  | ExperienceSync string int
  | PointsPacket string int int int int
  | HealPacket string string int
  | SyncPacket string int int int

text \<open>
  What a player method does to the world: \<open>world.push(PacketType.Player, ...)\<close>,
  \<open>world.push(PacketType.Regions, {region, packet, ignore})\<close>, \<open>regions.sendRegion(this)\<close>,
  \<open>database.creator.save(this)\<close> and the invocation of the registered cheat-score
  callback. They are appended to the player's \<open>outbox\<close> in program order.
\<close>

datatype event =
    PushPlayer packet
  | PushRegions int packet string
  | SendRegion
  | Save
  | CallCheatScore

record player =
  pinstance :: string
  region :: int
  experience :: int
  level :: int
  nextExperience :: "int option"
  prevExperience :: int
  hitPoints :: point_pool
  mana :: point_pool
  cheatScore :: int
  combat_started :: bool
  cheatScoreCallback :: bool
  lastNotify :: "int option"
  weapon :: equipment
  isGuest :: bool
  ready :: bool
  outbox :: "event list"

text \<open>
  \<open>Formulas\<close> (absent from the sources) is a parameter: pure functions of fixed
  signature.
\<close>

record formulas =
  expToLevel :: "int \<Rightarrow> int"
  nextExp :: "int \<Rightarrow> int option"
  prevExp :: "int \<Rightarrow> int"
  getMaxHitPoints :: "int \<Rightarrow> int"
  getMaxMana :: "int \<Rightarrow> int"

text \<open>
  The other collaborators read by the player: \<open>config.skipDatabase\<close>,
  \<open>Utils.parseMessage\<close> and the number-to-string conversion of a template literal.
\<close>

record env =
  skipDatabase :: bool
  parseMessage :: "string \<Rightarrow> string"
  showNum :: "int \<Rightarrow> string"

definition send :: "packet \<Rightarrow> player \<Rightarrow> player" where
  "send pk p = p\<lparr>outbox := outbox p @ [PushPlayer pk]\<rparr>"









text \<open>\<open>Player.incrementCheatScore\<close>; the optional callback is invoked only when registered.\<close>

definition incrementCheatScore :: "int \<Rightarrow> player \<Rightarrow> player" where
  "incrementCheatScore amount p =
     (if combat_started p then p
      else (let p1 = p\<lparr>cheatScore := cheatScore p + amount\<rparr>
            in if cheatScoreCallback p1 then p1\<lparr>outbox := outbox p1 @ [CallCheatScore]\<rparr> else p1))"

text \<open>
  \<open>Player.notify\<close>. The two reads of \<open>Date.now()\<close> are the arguments \<open>now1\<close> (the
  rate-limit test) and \<open>now2\<close> (the stored timestamp). \<open>lastNotify\<close> is declared without
  an initial value: while it is \<open>undefined\<close> the difference is \<open>NaN\<close> and the test
  \<open>NaN < 250\<close> is false.
\<close>

definition tooSoon :: "int option \<Rightarrow> int \<Rightarrow> bool" where
  "tooSoon lastT now = (case lastT of None \<Rightarrow> False | Some t \<Rightarrow> now - t < 250)"

definition notify :: "env \<Rightarrow> string \<Rightarrow> string option \<Rightarrow> int \<Rightarrow> int \<Rightarrow> player \<Rightarrow> player" where
  "notify E message colour now1 now2 p =
     (if message = [] then p
      else if tooSoon (lastNotify p) now1 then p
      else (send (NotificationText (parseMessage E message) colour) p)\<lparr>lastNotify := Some now2\<rparr>)"

text \<open>\<open>Modules.Hits\<close> and the \<open>Hit\<close> object (type and damage).\<close>

datatype hit_type = Damage | Critical | Stun | Explosive

datatype hit = Hit hit_type int

text \<open>
  The values of \<open>Modules.Enchantment.Critical\<close>, \<open>.Stun\<close> and \<open>.Explosive\<close> are not among
  the sources: they are parameters.
\<close>

record enchantment =
  enchCritical :: int
  enchStun :: int
  enchExplosive :: int

definition hasSpecialAttack :: "player \<Rightarrow> bool" where
  "hasSpecialAttack p = False"

text \<open>
  \<open>Player.getHit\<close>: \<open>getDamage\<close> is \<open>Formulas.getDamage\<close>, \<open>roll\<close> the value of
  \<open>Utils.randomInt(0, 100)\<close>. The result is \<open>None\<close> when the \<open>switch\<close> falls through
  (the function then returns \<open>undefined\<close>).
\<close>

definition getHit :: "enchantment \<Rightarrow> (player \<Rightarrow> 't \<Rightarrow> int) \<Rightarrow> player \<Rightarrow> 't \<Rightarrow> int \<Rightarrow> hit option" where
  "getHit M getDamage p target roll =
     (let w = weapon p;
          defaultDamage = getDamage p target;
          isSpecial = (roll < 30 + abilityLevel w * 3)
      in if \<not> isSpecial \<or> \<not> hasSpecialAttack p then Some (Hit Damage defaultDamage)
         else if ability w = enchCritical M
              then (let multiplier = 1 + abilityLevel w;
                        damage = defaultDamage * multiplier
                    in Some (Hit Critical damage))
         else if ability w = enchStun M then Some (Hit Stun defaultDamage)
         else if ability w = enchExplosive M then Some (Hit Explosive defaultDamage)
         else None)"


definition saveEvents :: "env \<Rightarrow> player \<Rightarrow> event list" where
  "saveEvents E p = (if skipDatabase E \<or> isGuest p \<or> \<not> ready p then [] else [Save])"

section \<open>Skills (the skills class that follows the player class in player.ts)\<close>

text \<open>\<open>Modules.Skills\<close>: the keys of the skill dictionary.\<close>

datatype skill_type = Accuracy | Archery | Health | Lumberjacking | Magic | Strength

text \<open>
  A \<open>Skill\<close> (its class is not among the sources): the \<open>level\<close> and \<open>combat\<close> properties
  that \<open>Skills\<close> reads, and the experience counter.
\<close>

record skill =
  skill_experience :: int
  skill_level :: int
  combat :: bool

text \<open>
  The \<open>Skills\<close> aggregate: the \<open>loaded\<close> flag and the six skill instances. The dictionary
  \<open>skills\<close> is built once from the six instances and never changed.
\<close>

record skills =
  loaded :: bool
  accuracy :: skill
  archery :: skill
  health :: skill
  lumberjacking :: skill
  magic :: skill
  strength :: skill

definition skillsDict :: "skills \<Rightarrow> (skill_type \<times> skill) list" where
  "skillsDict S =
     [(Accuracy, accuracy S), (Archery, archery S), (Health, health S),
      (Lumberjacking, lumberjacking S), (Magic, magic S), (Strength, strength S)]"

text \<open>\<open>Skills.get\<close>: the dictionary lookup, \<open>None\<close> for \<open>undefined\<close>.\<close>

definition get :: "skills \<Rightarrow> skill_type \<Rightarrow> skill option" where
  "get S t = map_of (skillsDict S) t"

text \<open>\<open>Skills.getCombatSkills\<close>: \<open>_.filter\<close> over the values of the dictionary.\<close>

definition getCombatSkills :: "skills \<Rightarrow> skill list" where
  "getCombatSkills S = filter (\<lambda>k. combat k) (map snd (skillsDict S))"

text \<open>The \<open>for\<close> loop of \<open>getCombatLevel\<close>, on the part of the array not yet visited.\<close>

fun combatLevelLoop :: "int \<Rightarrow> skill list \<Rightarrow> int" where
  "combatLevelLoop lvl [] = lvl"
| "combatLevelLoop lvl (k # ks) = combatLevelLoop (lvl + (skill_level k - 1)) ks"

definition getCombatLevel :: "skills \<Rightarrow> int" where
  "getCombatLevel S = (let lvl = 1; ks = getCombatSkills S in combatLevelLoop lvl ks)"

text \<open>
  \<open>Skills.sync\<close>, acting on the owning player. Reading \<open>.level\<close> of a missing skill would
  throw; the dictionary always holds the health and the magic skill, and the model leaves
  the player as it is at that point.
\<close>

definition Skills_sync :: "formulas \<Rightarrow> skills \<Rightarrow> player \<Rightarrow> player" where
  "Skills_sync F S p =
     (if \<not> loaded S then p
      else (case get S Health of
              None \<Rightarrow> p
            | Some healthSkill \<Rightarrow>
               (case get S Magic of
                  None \<Rightarrow> p
                | Some magicSkill \<Rightarrow>
                   (let p1 = p\<lparr>hitPoints := setMaxPoints (getMaxHitPoints F (skill_level healthSkill)) (hitPoints p)\<rparr>;
                        p2 = p1\<lparr>mana := setMaxPoints (getMaxMana F (skill_level magicSkill)) (mana p1)\<rparr>;
                        p3 = p2\<lparr>level := getCombatLevel S\<rparr>;
                        p4 = send (ExperienceSync (pinstance p3) (level p3)) p3
                    in send (PointsPacket (pinstance p4) (points (hitPoints p4)) (maxPoints (hitPoints p4))
                               (points (mana p4)) (maxPoints (mana p4))) p4))))"

section \<open>Doors (doors.ts)\<close>

text \<open>\<open>DoorStatus\<close> is \<open>'open' | 'closed' | undefined\<close>: a \<open>door_status option\<close>.\<close>

datatype door_status = StatusOpen | StatusClosed

text \<open>The interface \<open>IDs\<close>: render data and collision flag of one tile.\<close>

record ids =
  ids_data :: "int list"
  ids_isColliding :: bool

text \<open>
  The interface \<open>Door\<close>. The tile dictionaries \<open>closedIds\<close> and \<open>openIds\<close> are association
  lists in key order; a key is kept as the tile index that \<open>parseInt(key)\<close> yields.
\<close>

record door =
  door_id :: int
  door_x :: "int option"
  door_y :: "int option"
  status :: "door_status option"
  requirement :: string
  door_level :: "int option"
  questId :: "int option"
  achievementId :: "int option"
  closedIds :: "(int \<times> ids) list"
  openIds :: "(int \<times> ids) list"

text \<open>The interface \<open>DoorTiles\<close>: three parallel arrays.\<close>

record doorTiles =
  indexes :: "int list"
  tilesData :: "int list list"
  collisions :: "bool list"

text \<open>
  \<open>player.quests\<close> (not among the sources) is a parameter. A quest is given by its
  \<open>hasDoorUnlocked\<close> predicate, an achievement by the value of \<open>isFinished()\<close>; the lookups
  take the possibly undefined id of the door and may find nothing.
\<close>

record questLog =
  getQuest :: "int option \<Rightarrow> (door \<Rightarrow> bool) option"
  getAchievement :: "int option \<Rightarrow> bool option"

text \<open>
  The map as the doors and the mob handler use it (not among the sources): a parameter.
\<close>

record gameMap =
  isColliding :: "int \<Rightarrow> int \<Rightarrow> bool"
  isEmpty :: "int \<Rightarrow> int \<Rightarrow> bool"
  isDoor :: "int \<Rightarrow> int \<Rightarrow> bool"
  getPlateauLevel :: "int \<Rightarrow> int \<Rightarrow> int"
  coordToIndex :: "int \<Rightarrow> int \<Rightarrow> int"
  getRegion :: "int option \<Rightarrow> int option \<Rightarrow> int"

text \<open>
  \<open>Doors.getStatus\<close>. The \<open>switch\<close> has no default: for any other requirement the
  function ends without a \<open>return\<close> and yields \<open>undefined\<close>. A door without a \<open>level\<close>
  compares the player's level with \<open>undefined\<close>, which is false.
\<close>

definition getStatus :: "env \<Rightarrow> questLog \<Rightarrow> player \<Rightarrow> door \<Rightarrow> door_status option" where
  "getStatus E Q p d =
     (case status d of
        Some s \<Rightarrow> Some s
      | None \<Rightarrow>
          if skipDatabase E then Some StatusOpen
          else if requirement d = ''quest''
               then (case getQuest Q (questId d) of
                       None \<Rightarrow> Some StatusClosed
                     | Some hasDoorUnlocked \<Rightarrow> if hasDoorUnlocked d then Some StatusOpen else Some StatusClosed)
          else if requirement d = ''achievement''
               then (case getAchievement Q (achievementId d) of
                       None \<Rightarrow> Some StatusClosed
                     | Some isFinished \<Rightarrow> if isFinished then Some StatusOpen else Some StatusClosed)
          else if requirement d = ''level''
               then (case door_level d of
                       None \<Rightarrow> Some StatusClosed
                     | Some l \<Rightarrow> if level p \<ge> l then Some StatusOpen else Some StatusClosed)
          else None)"

definition emptyTiles :: doorTiles where
  "emptyTiles = \<lparr>indexes = [], tilesData = [], collisions = []\<rparr>"

text \<open>The body of the \<open>_.each\<close> of \<open>getTiles\<close>: one push to each of the three arrays.\<close>

definition pushTile :: "doorTiles \<Rightarrow> int \<times> ids \<Rightarrow> doorTiles" where
  "pushTile tiles kv =
     tiles\<lparr>indexes := indexes tiles @ [fst kv],
           tilesData := tilesData tiles @ [ids_data (snd kv)],
           collisions := collisions tiles @ [ids_isColliding (snd kv)]\<rparr>"

text \<open>
  \<open>Doors.getTiles\<close>: \<open>doorState[status]\<close> is the open or the closed dictionary, and
  \<open>undefined\<close> (over which \<open>_.each\<close> visits nothing) for an undefined status.
\<close>

definition getTiles :: "env \<Rightarrow> questLog \<Rightarrow> player \<Rightarrow> door \<Rightarrow> doorTiles" where
  "getTiles E Q p d =
     (let doorState = (case getStatus E Q p d of
                         Some StatusOpen \<Rightarrow> openIds d
                       | Some StatusClosed \<Rightarrow> closedIds d
                       | None \<Rightarrow> [])
      in foldl pushTile emptyTiles doorState)"

text \<open>
  \<open>Doors.getAllTiles\<close>: the body of its \<open>_.each\<close> computes the region of the door and
  nothing else (the lines that would collect the tiles of the door are commented out).
\<close>

definition getAllTiles :: "gameMap \<Rightarrow> door list \<Rightarrow> doorTiles" where
  "getAllTiles M doors =
     foldl (\<lambda>allTiles d. (let doorRegion = getRegion M (door_x d) (door_y d) in allTiles)) emptyTiles doors"

text \<open>An array read \<open>a[i]\<close> at a non-negative index: \<open>undefined\<close> beyond the end.\<close>

definition arrayAt :: "'a list \<Rightarrow> int \<Rightarrow> 'a option" where
  "arrayAt a i = (if 0 \<le> i \<and> nat i < length a then Some (a ! nat i) else None)"

text \<open>\<open>Doors.hasCollision\<close>; \<open>None\<close> is the \<open>undefined\<close> of a read beyond the array.\<close>

definition hasCollision :: "gameMap \<Rightarrow> door list \<Rightarrow> int \<Rightarrow> int \<Rightarrow> bool option" where
  "hasCollision M doors x y =
     (let tiles = getAllTiles M doors;
          tileIndex = coordToIndex M x y;
          index = indexOf (indexes tiles) tileIndex
      in if index < 0 then Some False else arrayAt (collisions tiles) index)"

definition isClosed :: "env \<Rightarrow> questLog \<Rightarrow> player \<Rightarrow> door \<Rightarrow> bool" where
  "isClosed E Q p d = (getStatus E Q p d = Some StatusClosed)"

section \<open>Mob handler (handler.ts)\<close>

text \<open>
  The fields of the mob that the handler reads (the \<open>Mob\<close> class is not among the
  sources): position, spawn point, roam distance, the dead flag and \<open>combat.started\<close>.
\<close>

record mob =
  mob_x :: int
  mob_y :: int
  spawnX :: int
  spawnY :: int
  roamDistance :: int
  dead :: bool
  mob_combat_started :: bool

text \<open>
  The handler: its constructor stores the plateau level of the spawn tile once.
\<close>

record handler =
  plateauLevel :: int

definition Handler :: "gameMap \<Rightarrow> mob \<Rightarrow> handler" where
  "Handler M m = \<lparr>plateauLevel = getPlateauLevel M (spawnX m) (spawnY m)\<rparr>"

text \<open>
  \<open>Handler.handleRoaming\<close>. \<open>getDistance\<close> is \<open>Utils.getDistance\<close> (not among the sources,
  a parameter); \<open>rx\<close> and \<open>ry\<close> are the two values of
  \<open>Utils.randomInt(-roamDistance, roamDistance)\<close>. The result is the destination passed to
  \<open>mob.move\<close>, and \<open>None\<close> when the function returns without moving the mob.
\<close>

definition handleRoaming ::
  "gameMap \<Rightarrow> (int \<Rightarrow> int \<Rightarrow> int \<Rightarrow> int \<Rightarrow> real) \<Rightarrow> handler \<Rightarrow> mob \<Rightarrow> int \<Rightarrow> int \<Rightarrow> (int \<times> int) option" where
  "handleRoaming M getDistance H m rx ry =
     (if dead m then None
      else (let newX = spawnX m + rx;
                newY = spawnY m + ry;
                distance = getDistance (spawnX m) (spawnY m) newX newY
            in if isColliding M newX newY then None
               else if isEmpty M newX newY then None
               else if isDoor M newX newY then None
               else if distance < real_of_int (roamDistance m) then None
               else if newX = mob_x m \<and> newY = mob_y m then None
               else if mob_combat_started m then None
               else if plateauLevel H \<noteq> getPlateauLevel M newX newY then None
               else Some (newX, newY)))"

text \<open>
  Modelled from the spec: \<open>Utils.getDistance\<close> is absent from the sources; the spec calls
  its value "the straight-line distance from spawn to candidate".
\<close>

definition straightLine :: "int \<Rightarrow> int \<Rightarrow> int \<Rightarrow> int \<Rightarrow> real" where
  "straightLine x1 y1 x2 y2 = sqrt (real_of_int ((x1 - x2) * (x1 - x2) + (y1 - y2) * (y1 - y2)))"

section \<open>TeamWar (teamwar.ts)\<close>

text \<open>The type \<open>Team\<close>; \<open>getTeam\<close> returns \<open>null\<close> (\<open>None\<close>) for a player in no array.\<close>

datatype team = Red | Blue | Lobby

text \<open>
  The state of the minigame over players of type \<open>'p\<close> (compared by identity in the
  source). \<open>minigame\<close> is the \<open>team\<close> of the state object that \<open>add\<close> stores on a player
  (\<open>None\<close> while nothing or \<open>null\<close> is stored); \<open>pushed\<close> lists the countdown packets pushed
  to the world, each with its receiver and the countdown it carries.
\<close>

record 'p teamWar =
  lobby :: "'p list"
  redTeam :: "'p list"
  blueTeam :: "'p list"
  started :: bool
  countdown :: int
  updateTick :: int
  lastSync :: int
  syncThreshold :: int
  minigame :: "'p \<Rightarrow> team option"
  pushed :: "('p \<times> int) list"

text \<open>The constructor; \<open>now\<close> is the value of \<open>Date.now()\<close>.\<close>

definition TeamWar :: "int \<Rightarrow> 'p teamWar" where
  "TeamWar now =
     \<lparr>lobby = [], redTeam = [], blueTeam = [], started = False, countdown = 120,
      updateTick = 1000, lastSync = now, syncThreshold = 10000,
      minigame = (\<lambda>p. None), pushed = []\<rparr>"

definition getTeam :: "'p teamWar \<Rightarrow> 'p \<Rightarrow> team option" where
  "getTeam T p =
     (if includesElem (redTeam T) p then Some Red
      else if includesElem (blueTeam T) p then Some Blue
      else if includesElem (lobby T) p then Some Lobby
      else None)"

text \<open>
  \<open>TeamWar.getState\<close>: the state of the superclass (not among the sources) extended by the
  team; the model keeps the team, and \<open>None\<close> is the \<open>null\<close> returned without a team.
\<close>

definition getState :: "'p teamWar \<Rightarrow> 'p \<Rightarrow> team option" where
  "getState T p = getTeam T p"

definition add :: "'p \<Rightarrow> 'p teamWar \<Rightarrow> 'p teamWar" where
  "add p T =
     (if includesElem (lobby T) p then T
      else (let T1 = T\<lparr>lobby := lobby T @ [p]\<rparr>
            in T1\<lparr>minigame := (minigame T1)(p := getState T1 p)\<rparr>))"

text \<open>\<open>a.splice(start, n)\<close> for \<open>0 \<le> start\<close>: the removed elements and the array left.\<close>

definition arraySplice :: "'a list \<Rightarrow> nat \<Rightarrow> nat \<Rightarrow> 'a list \<times> 'a list" where
  "arraySplice a start n = (take n (drop start a), take start a @ drop (start + n) a)"

definition remove :: "'p \<Rightarrow> 'p teamWar \<Rightarrow> 'p teamWar" where
  "remove p T =
     (let index = indexOf (lobby T) p
      in if index < 0 then T else T\<lparr>lobby := snd (arraySplice (lobby T) (nat index) 1)\<rparr>)"

text \<open>
  \<open>TeamWar.buildTeams\<close>; \<open>random\<close> is the value of \<open>Utils.randomInt(0, 1)\<close>. The copy \<open>tmp\<close>
  of the lobby is spliced, the lobby itself is not assigned.
\<close>

definition buildTeams :: "int \<Rightarrow> 'p teamWar \<Rightarrow> 'p teamWar" where
  "buildTeams random T =
     (let tmp = lobby T;
          half = (length tmp + 1) div 2;
          cut = arraySplice tmp 0 half
      in if random = 1 then T\<lparr>redTeam := fst cut, blueTeam := snd cut\<rparr>
         else T\<lparr>blueTeam := fst cut, redTeam := snd cut\<rparr>)"

definition count :: "'p teamWar \<Rightarrow> int" where
  "count T = int (length (lobby T))"

text \<open>\<open>synchronize\<close> with \<open>sendCountdown\<close> for every player of the lobby.\<close>

definition synchronize :: "'p teamWar \<Rightarrow> 'p teamWar" where
  "synchronize T =
     (if started T then T
      else T\<lparr>pushed := pushed T @ map (\<lambda>p. (p, countdown T)) (lobby T)\<rparr>)"

text \<open>
  The body of the interval callback installed by \<open>load\<close>; \<open>random\<close> is the draw of
  \<open>buildTeams\<close> and \<open>now\<close> the value of \<open>Date.now()\<close>.
\<close>

definition tick :: "int \<Rightarrow> int \<Rightarrow> 'p teamWar \<Rightarrow> 'p teamWar" where
  "tick random now T =
     (if count T < 5 \<or> countdown T > 0 then T
      else (let T1 = buildTeams random T;
                T2 = (if now - lastSync T1 > syncThreshold T1 then synchronize T1 else T1)
            in T2\<lparr>started := True\<rparr>))"

text \<open>The operations of the minigame, and a run of them.\<close>

datatype 'p operation = Add 'p | Remove 'p | Tick int int | BuildTeams int

fun step :: "'p operation \<Rightarrow> 'p teamWar \<Rightarrow> 'p teamWar" where
  "step (Add p) T = add p T"
| "step (Remove p) T = remove p T"
| "step (Tick random now) T = tick random now T"
| "step (BuildTeams random) T = buildTeams random T"

fun run :: "'p operation list \<Rightarrow> 'p teamWar \<Rightarrow> 'p teamWar" where
  "run [] T = T"
| "run (op # ops) T = run ops (step op T)"

text \<open>In how many of the three arrays a player occurs.\<close>

definition memberships :: "'p teamWar \<Rightarrow> 'p \<Rightarrow> nat" where
  "memberships T p =
     (if p \<in> set (lobby T) then 1 else 0) + (if p \<in> set (redTeam T) then 1 else 0)
       + (if p \<in> set (blueTeam T) then 1 else 0)"

text \<open>The lobby has no duplicates and no player is in both rosters.\<close>

definition rostersDisjoint :: "'p teamWar \<Rightarrow> bool" where
  "rostersDisjoint T = (distinct (lobby T) \<and> set (redTeam T) \<inter> set (blueTeam T) = {})"

section \<open>Concrete instances\<close>

text \<open>
  A player, an environment (its \<open>showNum\<close> renders the one level used below) and level
  formulas (one level per 100 experience, 30 + 10 per level hit points) on which the
  properties are instantiated.
\<close>

definition examplePlayer :: player where
  "examplePlayer =
     \<lparr>pinstance = ''p1'', region = 3, experience = 90, level = 1, nextExperience = Some 100,
      prevExperience = 0, hitPoints = \<lparr>points = 12, maxPoints = 40\<rparr>,
      mana = \<lparr>points = 5, maxPoints = 20\<rparr>, cheatScore = 2, combat_started = False,
      cheatScoreCallback = True, lastNotify = Some 1000,
      weapon = \<lparr>ability = 1, abilityLevel = 5\<rparr>, isGuest = False, ready = True,
      outbox = []\<rparr>"

definition exampleEnv :: env where
  "exampleEnv = \<lparr>skipDatabase = False, parseMessage = (\<lambda>s. s), showNum = (\<lambda>n. if n = 2 then ''2'' else ''?'')\<rparr>"

definition exampleFormulas :: formulas where
  "exampleFormulas =
     \<lparr>expToLevel = (\<lambda>e. e div 100 + 1), nextExp = (\<lambda>e. Some ((e div 100 + 1) * 100)),
      prevExp = (\<lambda>e. (e div 100) * 100), getMaxHitPoints = (\<lambda>l. 30 + 10 * l),
      getMaxMana = (\<lambda>l. 10 + 10 * l)\<rparr>"


text \<open>
  A skill aggregate that has not been loaded: five combat skills, three of them above
  level 1, and lumberjacking (no combat skill) at level 9.
\<close>

definition exampleSkills :: skills where
  "exampleSkills =
     \<lparr>loaded = False,
      accuracy = \<lparr>skill_experience = 250, skill_level = 3, combat = True\<rparr>,
      archery = \<lparr>skill_experience = 0, skill_level = 1, combat = True\<rparr>,
      health = \<lparr>skill_experience = 420, skill_level = 5, combat = True\<rparr>,
      lumberjacking = \<lparr>skill_experience = 800, skill_level = 9, combat = False\<rparr>,
      magic = \<lparr>skill_experience = 0, skill_level = 1, combat = True\<rparr>,
      strength = \<lparr>skill_experience = 130, skill_level = 2, combat = True\<rparr>\<rparr>"

text \<open>The same aggregate with every combat skill at level 1.\<close>

definition noviceSkills :: skills where
  "noviceSkills =
     exampleSkills\<lparr>accuracy := \<lparr>skill_experience = 0, skill_level = 1, combat = True\<rparr>,
                    health := \<lparr>skill_experience = 0, skill_level = 1, combat = True\<rparr>,
                    strength := \<lparr>skill_experience = 0, skill_level = 1, combat = True\<rparr>\<rparr>"

text \<open>
  A map without obstacles, ten tiles wide, on one plateau; a quest log without entries; a
  door with the fixed status \<open>closed\<close> whose closed tile 5 collides; and a door without a
  fixed status whose requirement is \<open>none\<close>.
\<close>

definition openField :: gameMap where
  "openField =
     \<lparr>isColliding = (\<lambda>x y. False), isEmpty = (\<lambda>x y. False), isDoor = (\<lambda>x y. False),
      getPlateauLevel = (\<lambda>x y. 0), coordToIndex = (\<lambda>x y. y * 10 + x),
      getRegion = (\<lambda>x y. 0)\<rparr>"

definition noQuests :: questLog where
  "noQuests = \<lparr>getQuest = (\<lambda>i. None), getAchievement = (\<lambda>i. None)\<rparr>"

definition fixedDoor :: door where
  "fixedDoor =
     \<lparr>door_id = 1, door_x = Some 5, door_y = Some 0, status = Some StatusClosed,
      requirement = ''none'', door_level = None, questId = None, achievementId = None,
      closedIds = [(5, \<lparr>ids_data = [17], ids_isColliding = True\<rparr>)],
      openIds = [(5, \<lparr>ids_data = [18], ids_isColliding = False\<rparr>)]\<rparr>"

definition plainDoor :: door where
  "plainDoor = fixedDoor\<lparr>door_id := 2, status := None\<rparr>"

text \<open>
  The mob of the spec's roaming scenario: alive, not in combat, standing on its spawn point
  \<open>(100, 100)\<close>, with roam distance 5.
\<close>

definition roamer :: mob where
  "roamer =
     \<lparr>mob_x = 100, mob_y = 100, spawnX = 100, spawnY = 100, roamDistance = 5,
      dead = False, mob_combat_started = False\<rparr>"

section \<open>Properties of the player\<close>

text \<open>
  C8. For every player, target, special-attack roll and equipped weapon, \<open>getHit\<close> returns
  a plain damage hit carrying exactly the formula damage: \<open>hasSpecialAttack\<close> is false, so
  the critical, stun and explosive branches are never taken.
\<close>

theorem getHit_plain_damage:
  "getHit M getDamage p target roll = Some (Hit Damage (getDamage p target))"
  by (simp add: getHit_def hasSpecialAttack_def Let_def)

text \<open>
  The instance player carries a weapon with the critical enchantment at ability level 5;
  with a roll of 0 (the special-attack test succeeds) the hit is still the plain formula
  damage.
\<close>

theorem getHit_plain_damage_witness:
  "getHit \<lparr>enchCritical = 1, enchStun = 5, enchExplosive = 4\<rparr> (\<lambda>p t. 7 + t)
     examplePlayer (3::int) 0 = Some (Hit Damage 10)"
  using getHit_plain_damage
    [of "\<lparr>enchCritical = 1, enchStun = 5, enchExplosive = 4\<rparr>" "\<lambda>p t. 7 + t" examplePlayer "3::int" 0]
  by simp

text \<open>
  C10. While the combat session has started, \<open>incrementCheatScore\<close> changes nothing: the
  cheat score stays and the callback is not invoked. Otherwise the cheat score grows by
  exactly \<open>amount\<close>, the callback (when one is registered) is invoked once, and every
  other field of the player is as before.
\<close>

theorem incrementCheatScore_frame:
  "(combat_started p \<longrightarrow> incrementCheatScore amount p = p) \<and>
   (\<not> combat_started p \<longrightarrow>
      incrementCheatScore amount p =
        p\<lparr>cheatScore := cheatScore p + amount,
          outbox := outbox p @ (if cheatScoreCallback p then [CallCheatScore] else [])\<rparr>)"
  by (simp add: incrementCheatScore_def Let_def)

text \<open>The player of the instances, in combat and out of combat.\<close>

theorem incrementCheatScore_frame_witness:
  "incrementCheatScore 5 (examplePlayer\<lparr>combat_started := True\<rparr>) = examplePlayer\<lparr>combat_started := True\<rparr> \<and>
   incrementCheatScore 5 examplePlayer = examplePlayer\<lparr>cheatScore := 7, outbox := [CallCheatScore]\<rparr>"
  using incrementCheatScore_frame [of "examplePlayer\<lparr>combat_started := True\<rparr>" 5]
        incrementCheatScore_frame [of examplePlayer 5]
  by (simp add: examplePlayer_def)

text \<open>
  C9. For a non-empty message: when fewer than 250 ms lie between the last successful
  notification and the clock read of the call, \<open>notify\<close> sends nothing and keeps the
  timestamp; otherwise (no notification yet, or at least 250 ms) it sends exactly one text
  notification and stores the second clock read. Hence a call whose clock read is less than
  250 ms after a successful notification sends nothing: at most one packet per 250 ms.
\<close>

theorem notify_rate_limit:
  assumes "message \<noteq> []"
  shows "(\<forall>t. lastNotify p = Some t \<and> now1 - t < 250 \<longrightarrow> notify E message colour now1 now2 p = p) \<and>
         (lastNotify p = None \<or> (\<exists>t. lastNotify p = Some t \<and> 250 \<le> now1 - t) \<longrightarrow>
            notify E message colour now1 now2 p =
              p\<lparr>outbox := outbox p @ [PushPlayer (NotificationText (parseMessage E message) colour)],
                lastNotify := Some now2\<rparr>) \<and>
         (\<forall>message' colour' later1 later2. later1 - now2 < 250 \<and> notify E message colour now1 now2 p \<noteq> p \<longrightarrow>
            notify E message' colour' later1 later2 (notify E message colour now1 now2 p) =
              notify E message colour now1 now2 p)"
  using assms by (auto simp add: notify_def tooSoon_def send_def split: option.splits)

text \<open>
  The last notification of the instance player was at 1000: a call at 1100 is dropped, a
  call at 1250 is sent, and a call 249 ms after that one is dropped.
\<close>

theorem notify_rate_limit_witness:
  "notify exampleEnv ''hi'' None 1100 1101 examplePlayer = examplePlayer \<and>
   notify exampleEnv ''hi'' None 1250 1251 examplePlayer =
     examplePlayer\<lparr>outbox := [PushPlayer (NotificationText ''hi'' None)], lastNotify := Some 1251\<rparr> \<and>
   notify exampleEnv ''again'' None 1500 1500 (notify exampleEnv ''hi'' None 1250 1251 examplePlayer) =
     notify exampleEnv ''hi'' None 1250 1251 examplePlayer"
proof -
  have ne: "''hi'' \<noteq> []" by simp
  have last: "lastNotify examplePlayer = Some 1000" "outbox examplePlayer = []"
    by (simp_all add: examplePlayer_def)
  have pm: "parseMessage exampleEnv ''hi'' = ''hi''" by (simp add: exampleEnv_def)
  note early = notify_rate_limit [OF ne, of examplePlayer 1100 exampleEnv None 1101]
  note late = notify_rate_limit [OF ne, of examplePlayer 1250 exampleEnv None 1251]
  from early last have a: "notify exampleEnv ''hi'' None 1100 1101 examplePlayer = examplePlayer"
    by simp
  from late last pm have b: "notify exampleEnv ''hi'' None 1250 1251 examplePlayer =
     examplePlayer\<lparr>outbox := [PushPlayer (NotificationText ''hi'' None)], lastNotify := Some 1251\<rparr>"
    by simp
  have "outbox (notify exampleEnv ''hi'' None 1250 1251 examplePlayer) \<noteq> outbox examplePlayer"
    by (simp add: b last)
  then have changed: "notify exampleEnv ''hi'' None 1250 1251 examplePlayer \<noteq> examplePlayer"
    by auto
  have "(1500::int) - 1251 < 250" by simp
  with late changed have c: "notify exampleEnv ''again'' None 1500 1500
      (notify exampleEnv ''hi'' None 1250 1251 examplePlayer) =
     notify exampleEnv ''hi'' None 1250 1251 examplePlayer"
    by blast
  from a b c show ?thesis by blast
qed



subsection \<open>Experience\<close>


lemma saveEvents_cong [simp]:
  "saveEvents E (p\<lparr>outbox := ob\<rparr>) = saveEvents E p"
  "saveEvents E (p\<lparr>hitPoints := hp\<rparr>) = saveEvents E p"
  "saveEvents E (p\<lparr>experience := e\<rparr>) = saveEvents E p"
  "saveEvents E (p\<lparr>level := l\<rparr>) = saveEvents E p"
  "saveEvents E (p\<lparr>nextExperience := ne\<rparr>) = saveEvents E p"
  "saveEvents E (p\<lparr>prevExperience := pe\<rparr>) = saveEvents E p"
  by (simp_all add: saveEvents_def)











section \<open>Properties of the skills\<close>

text \<open>The dictionary holds a skill under each of its six keys.\<close>

lemma get_total: "get S t \<noteq> None"
  by (cases t) (simp_all add: get_def skillsDict_def)

text \<open>The loop adds \<open>level - 1\<close> of every skill it visits to the running level.\<close>

lemma combatLevelLoop_sum:
  "combatLevelLoop lvl ks = lvl + (\<Sum>k\<leftarrow>ks. skill_level k - 1)"
  by (induction ks arbitrary: lvl) simp_all

lemma combatLevelLoop_floor:
  "\<forall>k \<in> set ks. skill_level k = 1 \<Longrightarrow> combatLevelLoop lvl ks = lvl"
  by (induction ks arbitrary: lvl) simp_all

text \<open>
  C7. \<open>getCombatLevel\<close> is 1 plus the sum of \<open>level - 1\<close> over exactly the combat-flagged
  skills of the dictionary, and it is exactly 1 when every combat-flagged skill is at level
  1. The loop does the same on any array of skills, whatever the number of combat-flagged
  ones.
\<close>

theorem getCombatLevel_sum:
  "getCombatLevel S =
     1 + (\<Sum>k\<leftarrow>filter (\<lambda>k. combat k)
             [accuracy S, archery S, health S, lumberjacking S, magic S, strength S]. skill_level k - 1) \<and>
   ((\<forall>k \<in> set (getCombatSkills S). skill_level k = 1) \<longrightarrow> getCombatLevel S = 1) \<and>
   (\<forall>ks. combatLevelLoop 1 (filter (\<lambda>k. combat k) ks) = 1 + (\<Sum>k\<leftarrow>filter (\<lambda>k. combat k) ks. skill_level k - 1)) \<and>
   (\<forall>ks. (\<forall>k \<in> set ks. combat k \<longrightarrow> skill_level k = 1) \<longrightarrow> combatLevelLoop 1 (filter (\<lambda>k. combat k) ks) = 1)"
proof -
  have a: "getCombatLevel S =
     1 + (\<Sum>k\<leftarrow>filter (\<lambda>k. combat k)
             [accuracy S, archery S, health S, lumberjacking S, magic S, strength S]. skill_level k - 1)"
    unfolding getCombatLevel_def getCombatSkills_def skillsDict_def Let_def combatLevelLoop_sum
    by simp
  have b: "(\<forall>k \<in> set (getCombatSkills S). skill_level k = 1) \<longrightarrow> getCombatLevel S = 1"
    unfolding getCombatLevel_def Let_def by (simp add: combatLevelLoop_floor)
  have c: "\<And>ks. (\<forall>k \<in> set ks. combat k \<longrightarrow> skill_level k = 1) \<longrightarrow>
      combatLevelLoop 1 (filter (\<lambda>k. combat k) ks) = 1"
    by (simp add: combatLevelLoop_floor)
  from a b c show ?thesis by (simp add: combatLevelLoop_sum)
qed

text \<open>
  Combat levels 3, 1, 5, 1, 2 (and lumberjacking at 9, not counted) give 8; five combat
  skills at level 1 give 1.
\<close>

theorem getCombatLevel_sum_witness:
  "getCombatLevel exampleSkills = 8 \<and> getCombatLevel noviceSkills = 1"
proof -
  have "getCombatLevel exampleSkills = 8"
    using getCombatLevel_sum [of exampleSkills] by (simp add: exampleSkills_def)
  moreover have "\<forall>k \<in> set (getCombatSkills noviceSkills). skill_level k = 1"
    by (simp add: getCombatSkills_def skillsDict_def noviceSkills_def exampleSkills_def)
  then have "getCombatLevel noviceSkills = 1"
    using getCombatLevel_sum [of noviceSkills] by blast
  ultimately show ?thesis by simp
qed

text \<open>
  C6. While \<open>load\<close> has not completed (the \<open>loaded\<close> flag is unset), \<open>Skills.sync\<close> leaves
  the player exactly as it is: nothing is pushed to the outbox, and max hit points, max
  mana and level keep their values.
\<close>

theorem Skills_sync_before_load:
  "\<not> loaded S \<Longrightarrow> Skills_sync F S p = p"
  by (simp add: Skills_sync_def)

text \<open>
  On the unloaded instance the call changes nothing; the same aggregate marked as loaded
  does push packets.
\<close>

theorem Skills_sync_before_load_witness:
  "Skills_sync exampleFormulas exampleSkills examplePlayer = examplePlayer \<and>
   Skills_sync exampleFormulas (exampleSkills\<lparr>loaded := True\<rparr>) examplePlayer \<noteq> examplePlayer"
proof -
  have "\<not> loaded exampleSkills" by (simp add: exampleSkills_def)
  then have a: "Skills_sync exampleFormulas exampleSkills examplePlayer = examplePlayer"
    by (rule Skills_sync_before_load)
  have "outbox (Skills_sync exampleFormulas (exampleSkills\<lparr>loaded := True\<rparr>) examplePlayer) \<noteq> outbox examplePlayer"
    by (simp add: Skills_sync_def get_def skillsDict_def exampleSkills_def send_def Let_def examplePlayer_def)
  then have "Skills_sync exampleFormulas (exampleSkills\<lparr>loaded := True\<rparr>) examplePlayer \<noteq> examplePlayer"
    by auto
  with a show ?thesis by simp
qed

section \<open>Properties of the doors\<close>

text \<open>No door contributes a tile: the collected tiles are always the empty arrays.\<close>

lemma getAllTiles_empty: "getAllTiles M doors = emptyTiles"
  unfolding getAllTiles_def Let_def by (induction doors) simp_all

text \<open>
  Consequently the lookup of \<open>hasCollision\<close> misses for every coordinate and every door
  table, and the branch that reads \<open>tiles.collisions[index]\<close> is never reached.
\<close>

lemma hasCollision_misses: "hasCollision M doors x y = Some False"
  by (simp add: hasCollision_def getAllTiles_empty emptyTiles_def Let_def)

text \<open>
  C3. The claim: when the tile index of \<open>(x, y)\<close> is among the status-selected tiles of a
  door, \<open>hasCollision(x, y)\<close> returns the stored collision flag of that tile (and \<open>false\<close>
  for a coordinate in no door's tile set). The code does not do the first part: tile 5 is
  the status-selected tile of a door whose status is fixed to \<open>closed\<close>, its stored
  collision flag is \<open>true\<close>, and \<open>hasCollision\<close> at the coordinate \<open>(5, 0)\<close> of tile 5
  returns \<open>false\<close>. The lines of \<open>getAllTiles\<close> that collect the tiles of \<open>getTiles\<close> are
  commented out, against the comment in \<open>hasCollision\<close> that describes the lookup among
  the door tiles.
\<close>

theorem hasCollision_drops_door_flag:
  "coordToIndex openField 5 0 = 5 \<and>
   indexes (getTiles exampleEnv noQuests examplePlayer fixedDoor) = [5] \<and>
   collisions (getTiles exampleEnv noQuests examplePlayer fixedDoor) = [True] \<and>
   hasCollision openField [fixedDoor] 5 0 = Some False"
  by (simp add: hasCollision_def getAllTiles_def getTiles_def getStatus_def pushTile_def
      emptyTiles_def openField_def fixedDoor_def Let_def)

text \<open>
  C4, as the code has it. For a door without a fixed status, with persistence enabled,
  whose requirement is none of \<open>quest\<close>, \<open>achievement\<close>, \<open>level\<close>, \<open>getStatus\<close> returns
  \<open>undefined\<close> (the \<open>switch\<close> has no default), and \<open>isClosed\<close> is therefore false.
\<close>

theorem getStatus_unmatched:
  assumes "status d = None" and "\<not> skipDatabase E"
    and "requirement d \<noteq> ''quest''" and "requirement d \<noteq> ''achievement''"
    and "requirement d \<noteq> ''level''"
  shows "getStatus E Q p d = None \<and> \<not> isClosed E Q p d"
  using assms by (simp add: getStatus_def isClosed_def)

text \<open>The door with requirement \<open>none\<close> and no fixed status is such a door.\<close>

theorem getStatus_unmatched_witness:
  "getStatus exampleEnv noQuests examplePlayer plainDoor = None \<and>
   \<not> isClosed exampleEnv noQuests examplePlayer plainDoor"
proof -
  have "status plainDoor = None" "\<not> skipDatabase exampleEnv"
    "requirement plainDoor \<noteq> ''quest''" "requirement plainDoor \<noteq> ''achievement''"
    "requirement plainDoor \<noteq> ''level''"
    by (simp_all add: plainDoor_def fixedDoor_def exampleEnv_def)
  then show ?thesis by (rule getStatus_unmatched)
qed

text \<open>
  C4 as stated fails on that door: its status is not \<open>closed\<close>, and \<open>isClosed\<close> is false.
\<close>

theorem getStatus_closed_counterexample:
  "status plainDoor = None \<and> \<not> skipDatabase exampleEnv \<and>
   requirement plainDoor \<notin> {''quest'', ''achievement'', ''level''} \<and>
   getStatus exampleEnv noQuests examplePlayer plainDoor \<noteq> Some StatusClosed \<and>
   \<not> isClosed exampleEnv noQuests examplePlayer plainDoor"
  by (simp add: getStatus_def isClosed_def plainDoor_def fixedDoor_def exampleEnv_def)

text \<open>
  The level branch, on the spec's scenario: a door that requires level 10 is closed for a
  player at level 9 and open at level 10.
\<close>

lemma getStatus_level_10:
  "getStatus exampleEnv noQuests (examplePlayer\<lparr>level := 9\<rparr>)
     (plainDoor\<lparr>requirement := ''level'', door_level := Some 10\<rparr>) = Some StatusClosed \<and>
   getStatus exampleEnv noQuests (examplePlayer\<lparr>level := 10\<rparr>)
     (plainDoor\<lparr>requirement := ''level'', door_level := Some 10\<rparr>) = Some StatusOpen"
  by (simp add: getStatus_def plainDoor_def fixedDoor_def exampleEnv_def)

section \<open>Properties of the mob handler\<close>

text \<open>
  What the code accepts: the mob is moved to the candidate exactly when it is alive and
  not in combat, the candidate tile is free, no door, on the stored plateau level and not
  the current position, and the distance from the spawn point is \<^emph>\<open>not\<close> less than the
  roam distance.
\<close>

lemma handleRoaming_accepts_iff:
  "handleRoaming M getDistance H m rx ry = Some (nx, ny) \<longleftrightarrow>
     nx = spawnX m + rx \<and> ny = spawnY m + ry \<and> \<not> dead m \<and> \<not> mob_combat_started m \<and>
     \<not> isColliding M nx ny \<and> \<not> isEmpty M nx ny \<and> \<not> isDoor M nx ny \<and>
     getPlateauLevel M nx ny = plateauLevel H \<and> (nx \<noteq> mob_x m \<or> ny \<noteq> mob_y m) \<and>
     real_of_int (roamDistance m) \<le> getDistance (spawnX m) (spawnY m) nx ny"
  by (auto simp add: handleRoaming_def Let_def)

text \<open>
  C1 on the spec's scenario (spawn \<open>(100, 100)\<close>, roam distance 5, free tiles on one
  plateau). The candidate \<open>(101, 100)\<close>, at straight-line distance 1 from the spawn point,
  meets every condition of the claim and is rejected by the code; the candidate
  \<open>(105, 100)\<close>, at distance 5, is accepted. The test \<open>distance < roamDistance\<close> returns
  where the comment above it says "prevent mobs from going outside of their roaming
  radius".
\<close>

theorem handleRoaming_inside_radius_rejected:
  "straightLine 100 100 101 100 = 1 \<and>
   \<not> isColliding openField 101 100 \<and> \<not> isEmpty openField 101 100 \<and> \<not> isDoor openField 101 100 \<and>
   getPlateauLevel openField 101 100 = plateauLevel (Handler openField roamer) \<and>
   handleRoaming openField straightLine (Handler openField roamer) roamer 1 0 = None \<and>
   straightLine 100 100 105 100 = 5 \<and>
   handleRoaming openField straightLine (Handler openField roamer) roamer 5 0 = Some (105, 100)"
  by (simp add: handleRoaming_def straightLine_def Handler_def openField_def roamer_def Let_def)

section \<open>Properties of TeamWar\<close>

text \<open>\<open>indexOf\<close> and \<open>splice\<close> together remove the first occurrence.\<close>

lemma indexOf_absent: "indexOf us v < 0 \<longleftrightarrow> v \<notin> set us"
  by (induction us) (auto simp add: Let_def)

lemma indexOf_nonneg: "- 1 \<le> indexOf us v"
  by (induction us) (auto simp add: Let_def)

lemma splice_indexOf:
  "v \<in> set us \<Longrightarrow> snd (arraySplice us (nat (indexOf us v)) 1) = remove1 v us"
proof (induction us)
  case Nil
  then show ?case by simp
next
  case (Cons u us)
  show ?case
  proof (cases "u = v")
    case True
    then show ?thesis by (simp add: arraySplice_def)
  next
    case False
    with Cons.prems have mem: "v \<in> set us" by simp
    then have nn: "\<not> indexOf us v < 0" by (simp add: indexOf_absent)
    then have "nat (indexOf us v + 1) = Suc (nat (indexOf us v))" by simp
    with False nn Cons.IH [OF mem] show ?thesis
      by (simp add: arraySplice_def Let_def)
  qed
qed

lemma remove_eq: "remove p T = T\<lparr>lobby := remove1 p (lobby T)\<rparr>"
proof (cases "p \<in> set (lobby T)")
  case True
  with splice_indexOf [OF True] show ?thesis
    by (simp add: remove_def Let_def indexOf_absent)
next
  case False
  then show ?thesis
    by (simp add: remove_def Let_def indexOf_absent remove1_idem)
qed


text \<open>\<open>buildTeams\<close> cuts the lobby at \<open>ceil(n / 2)\<close> and leaves the lobby itself alone.\<close>

lemma buildTeams_eq:
  "buildTeams random T =
     (if random = 1
      then T\<lparr>redTeam := take ((length (lobby T) + 1) div 2) (lobby T),
             blueTeam := drop ((length (lobby T) + 1) div 2) (lobby T)\<rparr>
      else T\<lparr>blueTeam := take ((length (lobby T) + 1) div 2) (lobby T),
             redTeam := drop ((length (lobby T) + 1) div 2) (lobby T)\<rparr>)"
  by (simp add: buildTeams_def arraySplice_def Let_def)

lemma take_drop_disjoint: "distinct us \<Longrightarrow> set (take n us) \<inter> set (drop n us) = {}"
  using distinct_append [of "take n us" "drop n us"] by simp

lemma take_drop_cover: "set (take n us) \<union> set (drop n us) = set us"
  using set_append [of "take n us" "drop n us"] by simp

lemma buildTeams_lobby: "lobby (buildTeams random T) = lobby T"
  by (simp add: buildTeams_eq)

lemma buildTeams_cover:
  "set (redTeam (buildTeams random T)) \<union> set (blueTeam (buildTeams random T)) = set (lobby T)"
  using take_drop_cover [of "(length (lobby T) + 1) div 2" "lobby T"]
  by (auto simp add: buildTeams_eq)

lemma buildTeams_disjoint:
  "distinct (lobby T) \<Longrightarrow>
   set (redTeam (buildTeams random T)) \<inter> set (blueTeam (buildTeams random T)) = {}"
  using take_drop_disjoint [of "lobby T" "(length (lobby T) + 1) div 2"]
  by (auto simp add: buildTeams_eq)

text \<open>Every operation keeps the lobby free of duplicates and the two rosters disjoint.\<close>

lemma add_preserves: "rostersDisjoint T \<Longrightarrow> rostersDisjoint (add p T)"
  by (simp add: rostersDisjoint_def add_def includesElem_def Let_def)

lemma remove_preserves: "rostersDisjoint T \<Longrightarrow> rostersDisjoint (remove p T)"
  by (simp add: rostersDisjoint_def remove_eq)

lemma buildTeams_preserves: "rostersDisjoint T \<Longrightarrow> rostersDisjoint (buildTeams random T)"
  by (simp add: rostersDisjoint_def buildTeams_lobby buildTeams_disjoint)

lemma synchronize_arrays:
  "lobby (synchronize T) = lobby T" "redTeam (synchronize T) = redTeam T"
  "blueTeam (synchronize T) = blueTeam T"
  by (simp_all add: synchronize_def)

lemma tick_preserves: "rostersDisjoint T \<Longrightarrow> rostersDisjoint (tick random now T)"
  using buildTeams_preserves [of T random]
  by (simp add: tick_def Let_def rostersDisjoint_def synchronize_arrays)

lemma step_preserves: "rostersDisjoint T \<Longrightarrow> rostersDisjoint (step op T)"
  by (cases op) (simp_all add: add_preserves remove_preserves tick_preserves buildTeams_preserves)

lemma run_preserves: "rostersDisjoint T \<Longrightarrow> rostersDisjoint (run ops T)"
  by (induction ops arbitrary: T) (simp_all add: step_preserves)

lemma TeamWar_rostersDisjoint: "rostersDisjoint (TeamWar now)"
  by (simp add: rostersDisjoint_def TeamWar_def)

lemma buildTeams_memberships:
  assumes "distinct (lobby T)" and "p \<in> set (lobby T)"
  shows "memberships (buildTeams random T) p = 2"
proof -
  from assms(2) buildTeams_cover [of random T]
  have "p \<in> set (redTeam (buildTeams random T)) \<or> p \<in> set (blueTeam (buildTeams random T))"
    by auto
  moreover from buildTeams_disjoint [OF assms(1), of random]
  have "\<not> (p \<in> set (redTeam (buildTeams random T)) \<and> p \<in> set (blueTeam (buildTeams random T)))"
    by auto
  ultimately show ?thesis
    using assms(2) by (auto simp add: memberships_def buildTeams_lobby)
qed

text \<open>The spec's scenario: a lobby of seven is split four to three.\<close>

lemma buildTeams_sizes:
  "length (lobby T) = 7 \<Longrightarrow>
   (random = 1 \<longrightarrow> length (redTeam (buildTeams random T)) = 4 \<and> length (blueTeam (buildTeams random T)) = 3) \<and>
   (random \<noteq> 1 \<longrightarrow> length (blueTeam (buildTeams random T)) = 4 \<and> length (redTeam (buildTeams random T)) = 3)"
  by (simp add: buildTeams_eq)

text \<open>
  C2, as the code has it. From a state whose lobby has no duplicates and whose two rosters
  are disjoint (the constructor's state is one), after every sequence of \<open>add\<close>, \<open>remove\<close>,
  tick and \<open>buildTeams\<close> the lobby has no duplicates and no player is in both \<open>redTeam\<close> and
  \<open>blueTeam\<close>. \<open>buildTeams\<close> does not take anybody out of the lobby: it leaves the lobby as
  it is and splits its players into the two rosters, so that afterwards every player of
  the lobby is in the lobby and in exactly one roster.
\<close>

theorem teams_disjoint_lobby_kept:
  assumes "distinct (lobby T)" and "set (redTeam T) \<inter> set (blueTeam T) = {}"
  shows "distinct (lobby (run ops T)) \<and>
         set (redTeam (run ops T)) \<inter> set (blueTeam (run ops T)) = {} \<and>
         lobby (buildTeams random (run ops T)) = lobby (run ops T) \<and>
         set (redTeam (buildTeams random (run ops T))) \<union> set (blueTeam (buildTeams random (run ops T)))
           = set (lobby (run ops T)) \<and>
         set (redTeam (buildTeams random (run ops T))) \<inter> set (blueTeam (buildTeams random (run ops T))) = {} \<and>
         (\<forall>p \<in> set (lobby (run ops T)). memberships (buildTeams random (run ops T)) p = 2)"
proof -
  from assms have "rostersDisjoint T" by (simp add: rostersDisjoint_def)
  then have inv: "rostersDisjoint (run ops T)" by (rule run_preserves)
  then have d: "distinct (lobby (run ops T))"
    and r: "set (redTeam (run ops T)) \<inter> set (blueTeam (run ops T)) = {}"
    by (simp_all add: rostersDisjoint_def)
  from d r buildTeams_disjoint [OF d, of random] buildTeams_memberships [OF d, of _ random]
  show ?thesis
    by (simp add: buildTeams_lobby buildTeams_cover)
qed

text \<open>
  From the constructor's state: players 1, 2, 3 join, 2 leaves, 4 joins; the red draw then
  gives red \<open>[1, 3]\<close> and blue \<open>[4]\<close> with the lobby still \<open>[1, 3, 4]\<close>.
\<close>

theorem teams_disjoint_lobby_kept_witness:
  "distinct (lobby (run [Add 1, Add 2, Add 3, Remove 2, Add 4] (TeamWar 0 :: nat teamWar))) \<and>
   set (redTeam (run [Add 1, Add 2, Add 3, Remove 2, Add 4] (TeamWar 0 :: nat teamWar))) \<inter>
     set (blueTeam (run [Add 1, Add 2, Add 3, Remove 2, Add 4] (TeamWar 0 :: nat teamWar))) = {} \<and>
   lobby (buildTeams 1 (run [Add 1, Add 2, Add 3, Remove 2, Add 4] (TeamWar 0 :: nat teamWar))) = [1, 3, 4] \<and>
   redTeam (buildTeams 1 (run [Add 1, Add 2, Add 3, Remove 2, Add 4] (TeamWar 0 :: nat teamWar))) = [1, 3] \<and>
   blueTeam (buildTeams 1 (run [Add 1, Add 2, Add 3, Remove 2, Add 4] (TeamWar 0 :: nat teamWar))) = [4] \<and>
   memberships (buildTeams 1 (run [Add 1, Add 2, Add 3, Remove 2, Add 4] (TeamWar 0 :: nat teamWar))) 3 = 2"
proof -
  let ?T = "run [Add 1, Add 2, Add 3, Remove 2, Add 4] (TeamWar 0 :: nat teamWar)"
  have a: "distinct (lobby (TeamWar 0 :: nat teamWar))" by (simp add: TeamWar_def)
  have b: "set (redTeam (TeamWar 0 :: nat teamWar)) \<inter> set (blueTeam (TeamWar 0 :: nat teamWar)) = {}"
    by (simp add: TeamWar_def)
  note kept = teams_disjoint_lobby_kept [OF a b, of "[Add 1, Add 2, Add 3, Remove 2, Add 4]" 1]
  have l: "lobby ?T = [1, 3, 4]"
    by (simp add: TeamWar_def add_def remove_eq includesElem_def Let_def)
  have t: "redTeam (buildTeams 1 ?T) = [1, 3]" "blueTeam (buildTeams 1 ?T) = [4]"
    using l by (simp_all add: buildTeams_eq)
  from kept l have m: "memberships (buildTeams 1 ?T) 3 = 2" by simp
  from kept l t m show ?thesis by simp
qed

text \<open>
  C2 as stated fails: after \<open>buildTeams\<close> player 1 is in the lobby and in the red roster,
  both when \<open>buildTeams\<close> is called on a lobby of one and when the tick builds the teams of
  a lobby of five whose countdown has elapsed (the \<open>countdown\<close> field set to 0; nothing in
  the class itself changes it).
\<close>

theorem one_roster_counterexample:
  "\<not> memberships (run [Add 1, BuildTeams 1] (TeamWar 0 :: nat teamWar)) 1 \<le> 1 \<and>
   \<not> memberships (run [Add 1, Add 2, Add 3, Add 4, Add 5, Tick 1 0]
        ((TeamWar 0 :: nat teamWar)\<lparr>countdown := 0\<rparr>)) 1 \<le> 1 \<and>
   lobby (run [Add 1, Add 2, Add 3, Add 4, Add 5, Tick 1 0] ((TeamWar 0 :: nat teamWar)\<lparr>countdown := 0\<rparr>))
     = [1, 2, 3, 4, 5] \<and>
   redTeam (run [Add 1, Add 2, Add 3, Add 4, Add 5, Tick 1 0] ((TeamWar 0 :: nat teamWar)\<lparr>countdown := 0\<rparr>))
     = [1, 2, 3] \<and>
   blueTeam (run [Add 1, Add 2, Add 3, Add 4, Add 5, Tick 1 0] ((TeamWar 0 :: nat teamWar)\<lparr>countdown := 0\<rparr>))
     = [4, 5]"
  by (simp add: memberships_def TeamWar_def add_def includesElem_def Let_def buildTeams_eq
      tick_def count_def synchronize_def)

end
